theory Spec2Isabelle
  imports Main
begin

section \<open>Python strings\<close>

text \<open>
  A Python \<open>str\<close> is modelled as a \<open>string\<close>, each \<open>char\<close> standing for the code point of
  the same number, so the model covers texts over the code points 0..255. On that
  range \<open>str.isspace\<close>, \<open>str.lower\<close> and the classes of the \<open>re\<close> module are the
  functions below; \<open>str.lower\<close> maps the range into itself and keeps the length.
\<close>

definition py_isspace :: "char \<Rightarrow> bool" where
  "py_isspace c =
     (let n = (of_char c :: nat)
      in (9 \<le> n \<and> n \<le> 13) \<or> (28 \<le> n \<and> n \<le> 32) \<or> n = 133 \<or> n = 160)"

definition py_lower_char :: "char \<Rightarrow> char" where
  "py_lower_char c =
     (let n = (of_char c :: nat)
      in if (65 \<le> n \<and> n \<le> 90) \<or> (192 \<le> n \<and> n \<le> 222 \<and> n \<noteq> 215)
         then char_of (n + 32) else c)"

definition py_lower :: "string \<Rightarrow> string" where
  "py_lower s = map py_lower_char s"

definition py_strip :: "string \<Rightarrow> string" where
  "py_strip s = rev (dropWhile py_isspace (rev (dropWhile py_isspace s)))"

text \<open>\<open>s.split(sep)\<close> for a separator of one character: never the empty list.\<close>

fun py_split :: "char \<Rightarrow> string \<Rightarrow> string list" where
  "py_split sep [] = [[]]"
| "py_split sep (c # cs) =
     (if c = sep then [] # py_split sep cs
      else (case py_split sep cs of
              [] \<Rightarrow> [[c]]
            | p # ps \<Rightarrow> (c # p) # ps))"

section \<open>Reference tables\<close>

text \<open>
  The hospital data frame is read only through its column \<open>HospitalName\<close>, the
  disease data frame through its columns \<open>Disease\<close> and \<open>Treatment\<close>, row by row.
\<close>

record disease_row =
  Disease :: string
  Treatment :: string

definition mock_hospitals :: "string list" where
  "mock_hospitals =
     [''Apollo Hospital'', ''Max Healthcare'', ''Fortis Hospital'', ''AIIMS'',
      ''Manipal Hospital'']"

definition mock_diseases :: "disease_row list" where
  "mock_diseases =
     [\<lparr>Disease = ''Diabetes'', Treatment = ''Insulin, Metformin''\<rparr>,
      \<lparr>Disease = ''Hypertension'', Treatment = ''ACE Inhibitors, Diuretics''\<rparr>,
      \<lparr>Disease = ''Heart Disease'', Treatment = ''Bypass Surgery, Angioplasty''\<rparr>,
      \<lparr>Disease = ''Cancer'', Treatment = ''Chemotherapy, Radiation''\<rparr>,
      \<lparr>Disease = ''Pneumonia'', Treatment = ''Antibiotics, Oxygen Therapy''\<rparr>]"

text \<open>
  What the loaders find on disk: no file, a file whose reading raises, or a table.
  Both loaders answer the first two with the mock data.
\<close>

datatype 'a dataset_file = Missing | Unreadable string | Table 'a

definition load_hospitals :: "string list dataset_file \<Rightarrow> string list" where
  "load_hospitals f =
     (case f of Missing \<Rightarrow> mock_hospitals
      | Unreadable e \<Rightarrow> mock_hospitals
      | Table hospitals_df \<Rightarrow> hospitals_df)"

definition load_diseases :: "disease_row list dataset_file \<Rightarrow> disease_row list" where
  "load_diseases f =
     (case f of Missing \<Rightarrow> mock_diseases
      | Unreadable e \<Rightarrow> mock_diseases
      | Table diseases_df \<Rightarrow> diseases_df)"

section \<open>The fraud check\<close>

record claim_data =
  hospital :: string
  disease :: string
  treatment :: string
  amount :: int
  patientName :: string
  claimId :: string

text \<open>
  \<open>check_fraud\<close> of \<open>main.py\<close>, without its console output: the early returns are the
  branches, and the two last statements are \<open>amount_check\<close>.
\<close>

definition check_fraud ::
  "claim_data \<Rightarrow> string list \<Rightarrow> disease_row list \<Rightarrow> string \<times> string" where
  "check_fraud claim hospitals_df diseases_df =
     (let hospital_name = py_strip (hospital claim);
          disease_name = py_strip (disease claim);
          treatment_name = py_strip (treatment claim);
          amount_check =
            (if amount claim > 500000
             then (''suspicious'', ''Unusually high claim amount'')
             else (''clean'', ''All checks passed.''))
      in if hospital_name \<noteq> [] \<and> hospital_name \<notin> set hospitals_df
         then (''fraudulent'', ''Hospital not in dataset'')
         else if disease_name \<noteq> [] then
           (let disease_row =
                  filter (\<lambda>r. py_lower (Disease r) = py_lower disease_name) diseases_df
            in case disease_row of
                 [] \<Rightarrow> (''fraudulent'', ''Disease not in dataset'')
               | row0 # _ \<Rightarrow>
                   if treatment_name \<noteq> [] then
                     (let valid_treatments =
                            map (\<lambda>t. py_lower (py_strip t))
                              (py_split CHR '','' (Treatment row0))
                      in if py_lower treatment_name \<notin> set valid_treatments
                         then (''fraudulent'', ''Treatment mismatch for disease'')
                         else amount_check)
                   else amount_check)
         else amount_check)"

subsection \<open>The decision chain as the specification words it\<close>

definition matched_disease :: "string \<Rightarrow> disease_row list \<Rightarrow> disease_row option" where
  "matched_disease d diseases = find (\<lambda>r. py_lower (Disease r) = py_lower d) diseases"

definition treatment_list :: "string \<Rightarrow> string list" where
  "treatment_list s = map (\<lambda>t. py_lower (py_strip t)) (py_split CHR '','' s)"

definition treatment_mismatch :: "string \<Rightarrow> disease_row option \<Rightarrow> bool" where
  "treatment_mismatch t m =
     (case m of None \<Rightarrow> False
      | Some r \<Rightarrow> py_lower t \<notin> set (treatment_list (Treatment r)))"

text \<open>
  Rules 1 to 5 of the classifier, read on the fields as they are given: a flat chain,
  the first rule that applies decides.
\<close>

definition classify_spec ::
  "claim_data \<Rightarrow> string list \<Rightarrow> disease_row list \<Rightarrow> string \<times> string" where
  "classify_spec f hospitals diseases =
     (if hospital f \<noteq> [] \<and> hospital f \<notin> set hospitals
      then (''fraudulent'', ''Hospital not in dataset'')
      else if disease f \<noteq> [] \<and> matched_disease (disease f) diseases = None
      then (''fraudulent'', ''Disease not in dataset'')
      else if disease f \<noteq> [] \<and> treatment f \<noteq> []
              \<and> treatment_mismatch (treatment f) (matched_disease (disease f) diseases)
      then (''fraudulent'', ''Treatment mismatch for disease'')
      else if amount f > 500000
      then (''suspicious'', ''Unusually high claim amount'')
      else (''clean'', ''All checks passed.''))"

text \<open>The fields as \<open>check_fraud\<close> reads them: the three names without surrounding whitespace.\<close>

definition trimmed :: "claim_data \<Rightarrow> claim_data" where
  "trimmed f =
     f\<lparr>hospital := py_strip (hospital f),
       disease := py_strip (disease f),
       treatment := py_strip (treatment f)\<rparr>"

text \<open>All three names pass their checks against the tables.\<close>

definition all_fields_matching ::
  "claim_data \<Rightarrow> string list \<Rightarrow> disease_row list \<Rightarrow> bool" where
  "all_fields_matching f hospitals diseases =
     (py_strip (hospital f) \<in> set hospitals
      \<and> (case matched_disease (py_strip (disease f)) diseases of
           None \<Rightarrow> False
         | Some r \<Rightarrow>
             py_lower (py_strip (treatment f)) \<in> set (treatment_list (Treatment r))))"

subsection \<open>The fraud check with its console output and the module state\<close>

text \<open>
  What a running process holds besides the arguments of a call: the two tables that
  the module loaded at start-up (the globals \<open>hospitals_df\<close> and \<open>diseases_df\<close>) and what
  has been printed so far.
\<close>

record process_state =
  global_hospitals_df :: "string list"
  global_diseases_df :: "disease_row list"
  console :: string

definition print :: "string \<Rightarrow> process_state \<Rightarrow> process_state" where
  "print line st = st\<lparr>console := console st @ line @ [CHR 0x0A]\<rparr>"

text \<open>\<open>str\<close> of an integer, for the f-strings.\<close>

fun str_nat :: "nat \<Rightarrow> string" where
  "str_nat n =
     (if n < 10 then [char_of (48 + n)]
      else str_nat (n div 10) @ [char_of (48 + n mod 10)])"

definition str_int :: "int \<Rightarrow> string" where
  "str_int i = (if i < 0 then CHR ''-'' # str_nat (nat (- i)) else str_nat (nat i))"

text \<open>
  \<open>check_fraud\<close> statement by statement, every \<open>print\<close> included. The tables it reads are
  its two parameters; the state is only printed to.
\<close>

definition check_fraud_io ::
  "claim_data \<Rightarrow> string list \<Rightarrow> disease_row list \<Rightarrow> process_state
     \<Rightarrow> (string \<times> string) \<times> process_state" where
  "check_fraud_io claim hospitals_df diseases_df st0 =
     (let hospital_name = py_strip (hospital claim);
          disease_name = py_strip (disease claim);
          treatment_name = py_strip (treatment claim);
          st1 = print (CHR 0x0A # ''--- Checking for Fraud ---'') st0;
          st2 = print (''Hospital Name Extracted: '' @ [CHR 0x27] @ hospital_name @ [CHR 0x27]) st1;
          st3 = print (''Disease Extracted: '' @ [CHR 0x27] @ disease_name @ [CHR 0x27]) st2;
          st4 = print (''Treatment Extracted: '' @ [CHR 0x27] @ treatment_name @ [CHR 0x27]) st3;
          st5 = print (''Amount Extracted: '' @ str_int (amount claim)) st4;
          fraud_detected = (\<lambda>fraud_reason.
            ((''fraudulent'', fraud_reason), print (''Fraud Detected: '' @ fraud_reason) st5));
          amount_check =
            (if amount claim > 500000
             then ((''suspicious'', ''Unusually high claim amount''),
                   print (''Suspicious activity detected: '' @ ''Unusually high claim amount'') st5)
             else ((''clean'', ''All checks passed.''),
                   print ''No fraud detected. Claim is clean.'' st5))
      in if hospital_name \<noteq> [] \<and> hospital_name \<notin> set hospitals_df
         then fraud_detected ''Hospital not in dataset''
         else if disease_name \<noteq> [] then
           (let disease_row =
                  filter (\<lambda>r. py_lower (Disease r) = py_lower disease_name) diseases_df
            in case disease_row of
                 [] \<Rightarrow> fraud_detected ''Disease not in dataset''
               | row0 # _ \<Rightarrow>
                   if treatment_name \<noteq> [] then
                     (let valid_treatments =
                            map (\<lambda>t. py_lower (py_strip t))
                              (py_split CHR '','' (Treatment row0))
                      in if py_lower treatment_name \<notin> set valid_treatments
                         then fraud_detected ''Treatment mismatch for disease''
                         else amount_check)
                   else amount_check)
         else amount_check)"

subsection \<open>Claims used as examples\<close>

definition apollo_claim :: claim_data where
  "apollo_claim =
     \<lparr>hospital = ''Apollo Hospital'', disease = ''Diabetes'', treatment = ''Insulin'',
      amount = 1000, patientName = [], claimId = []\<rparr>"

definition blank_claim :: claim_data where
  "blank_claim =
     \<lparr>hospital = [], disease = [], treatment = [], amount = 0,
      patientName = [], claimId = []\<rparr>"

section \<open>Facts about the string functions\<close>

lemma py_strip_Nil: "py_strip [] = []"
  by (simp add: py_strip_def)

lemma find_as_filter:
  "find P xs = (case filter P xs of [] \<Rightarrow> None | x # _ \<Rightarrow> Some x)"
  by (induction xs) simp_all

lemma py_split_head:
  "sep \<notin> set a \<Longrightarrow> py_split sep (a @ sep # b) = a # py_split sep b"
  by (induction a) auto

lemma py_strip_padded:
  assumes p: "list_all py_isspace p" and q: "list_all py_isspace q"
    and w: "w \<noteq> []" "\<not> py_isspace (hd w)" "\<not> py_isspace (last w)"
  shows "py_strip (p @ w @ q) = w"
proof -
  from w have front: "dropWhile py_isspace w = w"
    by (cases w) simp_all
  from p have "dropWhile py_isspace (p @ w @ q) = dropWhile py_isspace (w @ q)"
    by (simp add: list_all_iff)
  also from w have "\<dots> = w @ q"
    by (cases w) simp_all
  finally have a: "dropWhile py_isspace (p @ w @ q) = w @ q" .
  from q have "dropWhile py_isspace (rev q @ rev w) = dropWhile py_isspace (rev w)"
    by (intro dropWhile_append2) (simp add: list_all_iff)
  also from w have "\<dots> = rev w"
    by (simp add: dropWhile_eq_self_iff hd_rev)
  finally show ?thesis
    by (simp add: py_strip_def a)
qed

lemma comma_not_space: "\<not> py_isspace CHR '',''"
  by code_simp

lemma insulin_facts:
  "py_lower ''Insulin'' = ''insulin''" "\<not> py_isspace CHR ''I''" "\<not> py_isspace CHR ''n''"
  "py_strip ''Diabetes'' = ''Diabetes''"
  by code_simp+

section \<open>The decision chain\<close>

text \<open>
  C1, as stated, fails: a hospital name with a trailing blank is non-empty and not
  literally in the hospital table, and yet the claim is clean, because \<open>check_fraud\<close>
  trims the name before it looks it up.
\<close>

theorem check_fraud_untrimmed_hospital_clean:
  "hospital \<lparr>hospital = ''Apollo Hospital '', disease = [], treatment = [], amount = 0,
              patientName = [], claimId = []\<rparr> \<noteq> []
   \<and> hospital \<lparr>hospital = ''Apollo Hospital '', disease = [], treatment = [], amount = 0,
              patientName = [], claimId = []\<rparr> \<notin> set mock_hospitals
   \<and> check_fraud \<lparr>hospital = ''Apollo Hospital '', disease = [], treatment = [], amount = 0,
              patientName = [], claimId = []\<rparr> mock_hospitals mock_diseases
       = (''clean'', ''All checks passed.'')"
  by code_simp

text \<open>
  C1, amended: \<open>check_fraud\<close> is the ordered, short-circuiting chain of rules 1 to 5
  evaluated on the claim whose hospital, disease and treatment have been trimmed of
  surrounding whitespace, for every claim and both tables.
\<close>

theorem check_fraud_is_chain_on_trimmed:
  "check_fraud f hospitals diseases = classify_spec (trimmed f) hospitals diseases"
proof -
  let ?d = "py_strip (disease f)"
  let ?rows = "filter (\<lambda>r. py_lower (Disease r) = py_lower ?d) diseases"
  show ?thesis
  proof (cases ?rows)
    case Nil
    then have "matched_disease ?d diseases = None"
      by (simp add: matched_disease_def find_as_filter)
    with Nil show ?thesis
      by (simp add: check_fraud_def classify_spec_def trimmed_def Let_def
          treatment_mismatch_def)
  next
    case (Cons r rs)
    then have "matched_disease ?d diseases = Some r"
      by (simp add: matched_disease_def find_as_filter)
    with Cons show ?thesis
      by (simp add: check_fraud_def classify_spec_def trimmed_def Let_def
          treatment_mismatch_def treatment_list_def)
  qed
qed

section \<open>Empty fields\<close>

text \<open>
  C2, as stated, fails in its second half: the hospital table is compared with the
  trimmed name, so a name that is in the table only with its trailing blank is
  reported as unknown although the disease is empty.
\<close>

theorem check_fraud_untrimmed_hospital_in_table:
  "hospital \<lparr>hospital = ''Apollo Hospital '', disease = [], treatment = [], amount = 0,
              patientName = [], claimId = []\<rparr> \<in> set [''Apollo Hospital '']
   \<and> disease \<lparr>hospital = ''Apollo Hospital '', disease = [], treatment = [], amount = 0,
              patientName = [], claimId = []\<rparr> = []
   \<and> check_fraud \<lparr>hospital = ''Apollo Hospital '', disease = [], treatment = [], amount = 0,
              patientName = [], claimId = []\<rparr> [''Apollo Hospital ''] mock_diseases
       = (''fraudulent'', ''Hospital not in dataset'')"
  by code_simp

text \<open>
  C2, amended: a claim with an empty hospital is never answered with the reason
  "Hospital not in dataset"; and a claim whose hospital, trimmed of surrounding
  whitespace, is in the hospital table and whose disease is empty is never fraudulent:
  only the amount rule decides.
\<close>

theorem check_fraud_empty_fields_skip:
  "(hospital f = [] \<longrightarrow>
      snd (check_fraud f hospitals diseases) \<noteq> ''Hospital not in dataset'')
   \<and> (py_strip (hospital f) \<in> set hospitals \<and> disease f = [] \<longrightarrow>
        fst (check_fraud f hospitals diseases) \<noteq> ''fraudulent''
        \<and> check_fraud f hospitals diseases =
            (if amount f > 500000
             then (''suspicious'', ''Unusually high claim amount'')
             else (''clean'', ''All checks passed.'')))"
proof (intro conjI impI)
  assume "hospital f = []"
  then show "snd (check_fraud f hospitals diseases) \<noteq> ''Hospital not in dataset''"
    by (simp add: check_fraud_def Let_def py_strip_Nil split: list.split)
next
  assume h: "py_strip (hospital f) \<in> set hospitals \<and> disease f = []"
  then show amt: "check_fraud f hospitals diseases =
      (if amount f > 500000
       then (''suspicious'', ''Unusually high claim amount'')
       else (''clean'', ''All checks passed.''))"
    by (simp add: check_fraud_def Let_def py_strip_Nil)
  show "fst (check_fraud f hospitals diseases) \<noteq> ''fraudulent''"
    by (simp add: amt)
qed

theorem check_fraud_empty_fields_skip_witness:
  "hospital blank_claim = []
   \<and> snd (check_fraud blank_claim mock_hospitals mock_diseases) \<noteq> ''Hospital not in dataset''
   \<and> py_strip (hospital (apollo_claim\<lparr>disease := []\<rparr>)) \<in> set mock_hospitals
   \<and> disease (apollo_claim\<lparr>disease := []\<rparr>) = []
   \<and> fst (check_fraud (apollo_claim\<lparr>disease := []\<rparr>) mock_hospitals mock_diseases)
        \<noteq> ''fraudulent''"
proof -
  have a: "hospital blank_claim = []"
    by (simp add: blank_claim_def)
  have b: "py_strip (hospital (apollo_claim\<lparr>disease := []\<rparr>)) \<in> set mock_hospitals"
    by code_simp
  have c: "disease (apollo_claim\<lparr>disease := []\<rparr>) = []"
    by simp
  show ?thesis
    using a b c
      check_fraud_empty_fields_skip [of blank_claim mock_hospitals mock_diseases]
      check_fraud_empty_fields_skip
        [of "apollo_claim\<lparr>disease := []\<rparr>" mock_hospitals mock_diseases]
    by simp
qed

section \<open>The amount threshold\<close>

text \<open>
  C3: when hospital, disease and treatment all match the tables, an amount of 500001
  gives (suspicious, "Unusually high claim amount") and an amount of exactly 500000
  gives (clean, "All checks passed."): the threshold is strict.
\<close>

theorem check_fraud_amount_threshold:
  "all_fields_matching f hospitals diseases \<Longrightarrow>
     check_fraud (f\<lparr>amount := 500001\<rparr>) hospitals diseases
       = (''suspicious'', ''Unusually high claim amount'')
     \<and> check_fraud (f\<lparr>amount := 500000\<rparr>) hospitals diseases
       = (''clean'', ''All checks passed.'')"
proof -
  assume m: "all_fields_matching f hospitals diseases"
  let ?d = "py_strip (disease f)"
  from m obtain r where
    r: "matched_disease ?d diseases = Some r" and
    t: "py_lower (py_strip (treatment f)) \<in> set (treatment_list (Treatment r))" and
    h: "py_strip (hospital f) \<in> set hospitals"
    by (auto simp: all_fields_matching_def split: option.splits)
  from r obtain rs where
    rows: "filter (\<lambda>r. py_lower (Disease r) = py_lower ?d) diseases = r # rs"
    by (auto simp: matched_disease_def find_as_filter split: list.splits)
  show ?thesis
    using h t rows
    by (simp add: check_fraud_def Let_def treatment_list_def)
qed

theorem check_fraud_amount_threshold_witness:
  "all_fields_matching apollo_claim mock_hospitals mock_diseases
   \<and> check_fraud (apollo_claim\<lparr>amount := 500001\<rparr>) mock_hospitals mock_diseases
       = (''suspicious'', ''Unusually high claim amount'')
   \<and> check_fraud (apollo_claim\<lparr>amount := 500000\<rparr>) mock_hospitals mock_diseases
       = (''clean'', ''All checks passed.'')"
proof -
  have m: "all_fields_matching apollo_claim mock_hospitals mock_diseases"
    by code_simp
  show ?thesis
    using m check_fraud_amount_threshold [OF m] by simp
qed

section \<open>Fields the verdict does not read\<close>

text \<open>
  C10: two claims that agree on hospital, disease, treatment and amount get the same
  (status, reason) pair against the same tables, whatever their patientName and
  claimId are.
\<close>

theorem check_fraud_ignores_patient_and_id:
  "hospital a = hospital b \<Longrightarrow> disease a = disease b \<Longrightarrow>
   treatment a = treatment b \<Longrightarrow> amount a = amount b \<Longrightarrow>
     check_fraud a hospitals diseases = check_fraud b hospitals diseases"
  by (simp add: check_fraud_def)

theorem check_fraud_ignores_patient_and_id_witness:
  "patientName (apollo_claim\<lparr>patientName := ''Asha Rao'', claimId := ''CLM/001''\<rparr>)
     \<noteq> patientName apollo_claim
   \<and> claimId (apollo_claim\<lparr>patientName := ''Asha Rao'', claimId := ''CLM/001''\<rparr>)
     \<noteq> claimId apollo_claim
   \<and> check_fraud (apollo_claim\<lparr>patientName := ''Asha Rao'', claimId := ''CLM/001''\<rparr>)
        mock_hospitals mock_diseases
     = check_fraud apollo_claim mock_hospitals mock_diseases"
  using check_fraud_ignores_patient_and_id
    [of "apollo_claim\<lparr>patientName := ''Asha Rao'', claimId := ''CLM/001''\<rparr>" apollo_claim
        mock_hospitals mock_diseases]
  by (simp add: apollo_claim_def)

section \<open>Treatment matching\<close>

text \<open>
  C4: for a claim with disease "Diabetes" whose table row lists the treatments
  "Insulin, Metformin", with any whitespace around the two entries, and a claim
  treatment that is "insulin" in any letter case (and with any surrounding whitespace),
  rule 3 does not trigger: the reason is never "Treatment mismatch for disease".
\<close>

theorem check_fraud_insulin_matches:
  assumes tr: "py_lower (py_strip (treatment f)) = ''insulin''"
    and d: "disease f = ''Diabetes''"
    and row: "matched_disease ''Diabetes'' diseases = Some r"
    and tl: "Treatment r = p1 @ ''Insulin'' @ p2 @ '','' @ p3 @ ''Metformin'' @ p4"
    and ws: "list_all py_isspace (p1 @ p2 @ p3 @ p4)"
  shows "snd (check_fraud f hospitals diseases) \<noteq> ''Treatment mismatch for disease''"
proof -
  from ws have p1: "list_all py_isspace p1" and p2: "list_all py_isspace p2"
    by simp_all
  from p1 p2 have "CHR '','' \<notin> set (p1 @ ''Insulin'' @ p2)"
    using comma_not_space by (auto simp: list_all_iff)
  then have "py_split CHR '','' ((p1 @ ''Insulin'' @ p2) @ CHR '','' # (p3 @ ''Metformin'' @ p4))
      = (p1 @ ''Insulin'' @ p2) # py_split CHR '','' (p3 @ ''Metformin'' @ p4)"
    by (rule py_split_head)
  then have split: "py_split CHR '','' (Treatment r)
      = (p1 @ ''Insulin'' @ p2) # py_split CHR '','' (p3 @ ''Metformin'' @ p4)"
    by (simp add: tl)
  have "py_strip (p1 @ ''Insulin'' @ p2) = ''Insulin''"
    by (rule py_strip_padded [OF p1 p2]) (simp_all add: insulin_facts)
  with split have valid: "''insulin'' \<in> set (map (\<lambda>t. py_lower (py_strip t))
      (py_split CHR '','' (Treatment r)))"
    by (simp add: insulin_facts)
  from row obtain rs where
    rows: "filter (\<lambda>r. py_lower (Disease r) = py_lower ''Diabetes'') diseases = r # rs"
    by (auto simp: matched_disease_def find_as_filter split: list.splits)
  show ?thesis
    using valid rows tr
    by (simp add: check_fraud_def Let_def d insulin_facts)
qed

theorem check_fraud_insulin_matches_witness:
  "snd (check_fraud (apollo_claim\<lparr>treatment := '' iNSULIN''\<rparr>) mock_hospitals
         [\<lparr>Disease = ''Diabetes'', Treatment = '' Insulin  , Metformin''\<rparr>])
     \<noteq> ''Treatment mismatch for disease''"
proof -
  let ?r = "\<lparr>Disease = ''Diabetes'', Treatment = '' Insulin  , Metformin''\<rparr>"
  let ?f = "apollo_claim\<lparr>treatment := '' iNSULIN''\<rparr>"
  have tr: "py_lower (py_strip (treatment ?f)) = ''insulin''"
    by code_simp
  have d: "disease ?f = ''Diabetes''"
    by (simp add: apollo_claim_def)
  have row: "matched_disease ''Diabetes'' [?r] = Some ?r"
    by code_simp
  have tl: "Treatment ?r = '' '' @ ''Insulin'' @ ''  '' @ '','' @ '' '' @ ''Metformin'' @ []"
    by simp
  have ws: "list_all py_isspace ('' '' @ ''  '' @ '' '' @ [])"
    by code_simp
  show ?thesis
    by (rule check_fraud_insulin_matches [OF tr d row tl ws])
qed

end
